theory Spec2Isabelle
  imports Complex_Main "HOL-Library.Word"
begin

unbundle bit_operations_syntax

section \<open>Data model of \<^verbatim>\<open>main.go\<close>\<close>

text \<open>
  Go strings are byte sequences; they are modelled as \<^typ>\<open>string\<close>, whose characters are
  bytes. A rune is a Unicode code point (Go's \<^verbatim>\<open>int32\<close>; no arithmetic that could
  overflow is performed on it). Go's \<^verbatim>\<open>uint\<close> and \<^verbatim>\<open>int\<close> are the 64-bit
  machine integers (a signed one as its two's complement bit pattern); the program only
  copies them.
\<close>

type_synonym rune = int
type_synonym uint = "64 word"
type_synonym goint = "64 word"

text \<open>The ways in which the modelled code can panic.\<close>

datatype go_panic = TypeAssertion | NilDereference

subsection \<open>Package constants\<close>

definition step :: real where "step = 40.0"
definition gradient :: real where "gradient = 6.0"
definition angle :: real where "angle = 6.0"

text \<open>
  The bytes of the raw string literal \<open>graphic\<close>: ten lines of Braille patterns (three
  bytes each in UTF-8), spaces and ASCII art, each line ended by a newline. Every line of the
  literal starts a new row below.
\<close>

definition graphic :: string where
  "graphic =
    [
     CHR 0xE2, CHR 0xA0, CHR 0x80, CHR 0xE2, CHR 0xA0, CHR 0x80, CHR 0xE2, CHR 0xA0, CHR 0x80, CHR 0xE2,
     CHR 0xA0, CHR 0x80, CHR 0xE2, CHR 0xA0, CHR 0x80, CHR 0xE2, CHR 0xA0, CHR 0x80, CHR 0xE2, CHR 0xA0,
     CHR 0x80, CHR 0xE2, CHR 0xA0, CHR 0x80, CHR 0xE2, CHR 0xA0, CHR 0x80, CHR 0xE2, CHR 0xA0, CHR 0x80,
     CHR 0xE2, CHR 0xA0, CHR 0x80, CHR 0xE2, CHR 0xA0, CHR 0x80, CHR 0xE2, CHR 0xA0, CHR 0x80, CHR 0xE2,
     CHR 0xA0, CHR 0x80, CHR 0xE2, CHR 0xA3, CHR 0x80, CHR 0xE2, CHR 0xA0, CHR 0x80, CHR 0xE2, CHR 0xA0,
     CHR 0x80, CHR 0xE2, CHR 0xA0, CHR 0x80, CHR 0xE2, CHR 0xA0, CHR 0x80, CHR 0xE2, CHR 0xA0, CHR 0x80,
     CHR 0xE2, CHR 0xA0, CHR 0x80, CHR 0xE2, CHR 0xA0, CHR 0x80, CHR 0xE2, CHR 0xA0, CHR 0x80, CHR 0xE2,
     CHR 0xA0, CHR 0x80, CHR 0x0A,
     CHR 0xE2, CHR 0xA0, CHR 0x80, CHR 0xE2, CHR 0xA0, CHR 0x80, CHR 0xE2, CHR 0xA0, CHR 0x80, CHR 0xE2,
     CHR 0xA2, CHR 0xA0, CHR 0xE2, CHR 0xA1, CHR 0xBE, CHR 0xE2, CHR 0xA0, CHR 0xB2, CHR 0xE2, CHR 0xA0,
     CHR 0xB6, CHR 0xE2, CHR 0xA3, CHR 0xA4, CHR 0xE2, CHR 0xA3, CHR 0x80, CHR 0xE2, CHR 0xA3, CHR 0xA0,
     CHR 0xE2, CHR 0xA3, CHR 0xA4, CHR 0xE2, CHR 0xA3, CHR 0xA4, CHR 0xE2, CHR 0xA3, CHR 0xA4, CHR 0xE2,
     CHR 0xA1, CHR 0xBF, CHR 0xE2, CHR 0xA0, CHR 0x9B, CHR 0xE2, CHR 0xA0, CHR 0xBF, CHR 0xE2, CHR 0xA1,
     CHR 0xB4, CHR 0xE2, CHR 0xA0, CHR 0xBE, CHR 0xE2, CHR 0xA0, CHR 0x9B, CHR 0xE2, CHR 0xA2, CHR 0xBB,
     CHR 0xE2, CHR 0xA1, CHR 0x86, CHR 0xE2, CHR 0xA0, CHR 0x80, CHR 0xE2, CHR 0xA0, CHR 0x80, CHR 0xE2,
     CHR 0xA0, CHR 0x80, CHR 0x20, CHR 0x20, CHR 0x5F, CHR 0x5F, CHR 0x5F, CHR 0x5F, CHR 0x5F, CHR 0x20,
     CHR 0x20, CHR 0x20, CHR 0x20, CHR 0x20, CHR 0x20, CHR 0x5F, CHR 0x5F, CHR 0x20, CHR 0x20, CHR 0x20,
     CHR 0x20, CHR 0x5F, CHR 0x5F, CHR 0x5F, CHR 0x20, CHR 0x20, CHR 0x20, CHR 0x20, CHR 0x20, CHR 0x20,
     CHR 0x20, CHR 0x20, CHR 0x20, CHR 0x20, CHR 0x20, CHR 0x20, CHR 0x20, CHR 0x20, CHR 0x20, CHR 0x20,
     CHR 0x20, CHR 0x20, CHR 0x20, CHR 0x20, CHR 0x20, CHR 0x20, CHR 0x20, CHR 0x20, CHR 0x5F, CHR 0x5F,
     CHR 0x20, CHR 0x20, CHR 0x0A,
     CHR 0xE2, CHR 0xA0, CHR 0x80, CHR 0xE2, CHR 0xA0, CHR 0x80, CHR 0xE2, CHR 0xA0, CHR 0x80, CHR 0xE2,
     CHR 0xA3, CHR 0xBC, CHR 0xE2, CHR 0xA0, CHR 0x81, CHR 0xE2, CHR 0xA0, CHR 0x80, CHR 0xE2, CHR 0xA0,
     CHR 0x80, CHR 0x20, CHR 0xE2, CHR 0xA0, CHR 0x89, CHR 0xE2, CHR 0xA0, CHR 0x81, CHR 0xE2, CHR 0xA0,
     CHR 0x80, CHR 0xE2, CHR 0xA2, CHR 0x80, CHR 0xE2, CHR 0xA3, CHR 0xBF, CHR 0xE2, CHR 0xA0, CHR 0x90,
     CHR 0xE2, CHR 0xA1, CHR 0xBF, CHR 0xE2, CHR 0xA3, CHR 0xBF, CHR 0xE2, CHR 0xA0, CHR 0xBF, CHR 0xE2,
     CHR 0xA3, CHR 0xB6, CHR 0xE2, CHR 0xA3, CHR 0xA4, CHR 0xE2, CHR 0xA3, CHR 0xA4, CHR 0xE2, CHR 0xA3,
     CHR 0xB7, CHR 0xE2, CHR 0xA1, CHR 0x80, CHR 0xE2, CHR 0xA0, CHR 0x80, CHR 0xE2, CHR 0xA0, CHR 0x80,
     CHR 0xE2, CHR 0xA0, CHR 0x80, CHR 0x2F, CHR 0x20, CHR 0x5F, CHR 0x5F, CHR 0x5F, CHR 0x2F, CHR 0x5F,
     CHR 0x5F, CHR 0x5F, CHR 0x20, CHR 0x20, CHR 0x2F, CHR 0x20, CHR 0x2F, CHR 0x5F, CHR 0x20, CHR 0x20,
     CHR 0x2F, CHR 0x20, CHR 0x5F, CHR 0x20, CHR 0x5C, CHR 0x20, CHR 0x5F, CHR 0x20, CHR 0x20, CHR 0x20,
     CHR 0x20, CHR 0x5F, CHR 0x5F, CHR 0x20, CHR 0x5F, CHR 0x5F, CHR 0x5F, CHR 0x20, CHR 0x20, CHR 0x5F,
     CHR 0x5F, CHR 0x5F, CHR 0x20, CHR 0x20, CHR 0x5F, CHR 0x5F, CHR 0x5F, CHR 0x2F, CHR 0x20, CHR 0x2F,
     CHR 0x20, CHR 0x20, CHR 0x0A,
     CHR 0xE2, CHR 0xA0, CHR 0x80, CHR 0xE2, CHR 0xA0, CHR 0x80, CHR 0xE2, CHR 0xA0, CHR 0x80, CHR 0xE2,
     CHR 0xA2, CHR 0xB9, CHR 0xE2, CHR 0xA1, CHR 0xB6, CHR 0xE2, CHR 0xA0, CHR 0x80, CHR 0xE2, CHR 0xA0,
     CHR 0x80, CHR 0xE2, CHR 0xA0, CHR 0x80, CHR 0xE2, CHR 0xA0, CHR 0x80, CHR 0xE2, CHR 0xA0, CHR 0x80,
     CHR 0xE2, CHR 0xA0, CHR 0x80, CHR 0xE2, CHR 0xA0, CHR 0x88, CHR 0xE2, CHR 0xA2, CHR 0xAF, CHR 0xE2,
     CHR 0xA3, CHR 0xA1, CHR 0xE2, CHR 0xA3, CHR 0xBF, CHR 0xE2, CHR 0xA3, CHR 0xBF, CHR 0xE2, CHR 0xA3,
     CHR 0x80, CHR 0xE2, CHR 0xA3, CHR 0xB8, CHR 0xE2, CHR 0xA3, CHR 0xBF, CHR 0xE2, CHR 0xA3, CHR 0xA6,
     CHR 0xE2, CHR 0xA2, CHR 0x93, CHR 0xE2, CHR 0xA1, CHR 0x9F, CHR 0xE2, CHR 0xA0, CHR 0x80, CHR 0xE2,
     CHR 0xA0, CHR 0x80, CHR 0x2F, CHR 0x20, CHR 0x28, CHR 0x5F, CHR 0x20, CHR 0x2F, CHR 0x2F, CHR 0x20,
     CHR 0x2D, CHR 0x5F, CHR 0x29, CHR 0x2F, CHR 0x20, CHR 0x5F, CHR 0x5F, CHR 0x2F, CHR 0x20, CHR 0x2F,
     CHR 0x20, CHR 0x5F, CHR 0x5F, CHR 0x5F, CHR 0x2F, CHR 0x7C, CHR 0x20, CHR 0x7C, CHR 0x2F, CHR 0x7C,
     CHR 0x2F, CHR 0x20, CHR 0x2F, CHR 0x2F, CHR 0x20, CHR 0x5F, CHR 0x20, CHR 0x5C, CHR 0x2F, CHR 0x20,
     CHR 0x2D, CHR 0x5F, CHR 0x29, CHR 0x2F, CHR 0x20, CHR 0x5F, CHR 0x20, CHR 0x20, CHR 0x2F, CHR 0x20,
     CHR 0x20, CHR 0x20, CHR 0x0A,
     CHR 0xE2, CHR 0xA0, CHR 0x80, CHR 0xE2, CHR 0xA0, CHR 0x80, CHR 0xE2, CHR 0xA2, CHR 0x80, CHR 0xE2,
     CHR 0xA1, CHR 0xBF, CHR 0xE2, CHR 0xA0, CHR 0x80, CHR 0xE2, CHR 0xA0, CHR 0x80, CHR 0xE2, CHR 0xA0,
     CHR 0x80, CHR 0xE2, CHR 0xA0, CHR 0x80, CHR 0xE2, CHR 0xA0, CHR 0x80, CHR 0xE2, CHR 0xA0, CHR 0x80,
     CHR 0xE2, CHR 0xA0, CHR 0x80, CHR 0xE2, CHR 0xA0, CHR 0x80, CHR 0xE2, CHR 0xA0, CHR 0x80, CHR 0xE2,
     CHR 0xA0, CHR 0x80, CHR 0xE2, CHR 0xA0, CHR 0x80, CHR 0xE2, CHR 0xA0, CHR 0x88, CHR 0xE2, CHR 0xA0,
     CHR 0x89, CHR 0xE2, CHR 0xA0, CHR 0xB9, CHR 0xE2, CHR 0xA3, CHR 0x8D, CHR 0xE2, CHR 0xA3, CHR 0xAD,
     CHR 0xE2, CHR 0xA3, CHR 0xBE, CHR 0xE2, CHR 0xA0, CHR 0x81, CHR 0xE2, CHR 0xA0, CHR 0x80, CHR 0x20,
     CHR 0x5C, CHR 0x5F, CHR 0x5F, CHR 0x5F, CHR 0x2F, CHR 0x20, CHR 0x5C, CHR 0x5F, CHR 0x5F, CHR 0x2F,
     CHR 0x20, CHR 0x5C, CHR 0x5F, CHR 0x5F, CHR 0x2F, CHR 0x20, CHR 0x2F, CHR 0x5F, CHR 0x2F, CHR 0x20,
     CHR 0x20, CHR 0x20, CHR 0x20, CHR 0x7C, CHR 0x5F, CHR 0x5F, CHR 0x2C, CHR 0x5F, CHR 0x5F, CHR 0x2F,
     CHR 0x2F, CHR 0x5F, CHR 0x2F, CHR 0x2F, CHR 0x5F, CHR 0x2F, CHR 0x5C, CHR 0x5F, CHR 0x5F, CHR 0x2F,
     CHR 0x20, CHR 0x5C, CHR 0x5F, CHR 0x2C, CHR 0x5F, CHR 0x2F, CHR 0xE2, CHR 0xA0, CHR 0x80, CHR 0x0A,
     CHR 0xE2, CHR 0xA0, CHR 0x80, CHR 0xE2, CHR 0xA3, CHR 0x80, CHR 0xE2, CHR 0xA3, CHR 0xB8, CHR 0xE2,
     CHR 0xA3, CHR 0x87, CHR 0xE2, CHR 0xA0, CHR 0x80, CHR 0xE2, CHR 0xA0, CHR 0x80, CHR 0xE2, CHR 0xA0,
     CHR 0x80, CHR 0xE2, CHR 0xA0, CHR 0x80, CHR 0xE2, CHR 0xA0, CHR 0x80, CHR 0xE2, CHR 0xA0, CHR 0x80,
     CHR 0xE2, CHR 0xA0, CHR 0x80, CHR 0xE2, CHR 0xA0, CHR 0x80, CHR 0xE2, CHR 0xA0, CHR 0x80, CHR 0xE2,
     CHR 0xA0, CHR 0x80, CHR 0xE2, CHR 0xA0, CHR 0x80, CHR 0xE2, CHR 0xA0, CHR 0x80, CHR 0xE2, CHR 0xA0,
     CHR 0x80, CHR 0xE2, CHR 0xA0, CHR 0x80, CHR 0xE2, CHR 0xA0, CHR 0x80, CHR 0xE2, CHR 0xA2, CHR 0x80,
     CHR 0xE2, CHR 0xA3, CHR 0xB8, CHR 0xE2, CHR 0xA3, CHR 0xB7, CHR 0xE2, CHR 0xA3, CHR 0xA4, CHR 0xE2,
     CHR 0xA1, CHR 0x80, CHR 0x20, CHR 0x20, CHR 0x20, CHR 0x5F, CHR 0x5F, CHR 0x5F, CHR 0x20, CHR 0x20,
     CHR 0x20, CHR 0x20, CHR 0x20, CHR 0x20, CHR 0x20, CHR 0x20, CHR 0x20, CHR 0x20, CHR 0x20, CHR 0x20,
     CHR 0x20, CHR 0x20, CHR 0x20, CHR 0x20, CHR 0x20, CHR 0x20, CHR 0x20, CHR 0x20, CHR 0x20, CHR 0x20,
     CHR 0x20, CHR 0x0A,
     CHR 0xE2, CHR 0xA0, CHR 0x88, CHR 0xE2, CHR 0xA0, CHR 0x89, CHR 0xE2, CHR 0xA0, CHR 0xB9, CHR 0xE2,
     CHR 0xA3, CHR 0x8F, CHR 0xE2, CHR 0xA1, CHR 0x81, CHR 0xE2, CHR 0xA0, CHR 0x80, CHR 0xE2, CHR 0xA2,
     CHR 0xB8, CHR 0xE2, CHR 0xA3, CHR 0xBF, CHR 0xE2, CHR 0xA0, CHR 0x80, CHR 0xE2, CHR 0xA0, CHR 0x80,
     CHR 0xE2, CHR 0xA0, CHR 0x80, CHR 0xE2, CHR 0xA2, CHR 0x80, CHR 0xE2, CHR 0xA1, CHR 0x80, CHR 0xE2,
     CHR 0xA0, CHR 0x80, CHR 0xE2, CHR 0xA0, CHR 0x80, CHR 0xE2, CHR 0xA0, CHR 0x80, CHR 0xE2, CHR 0xA3,
     CHR 0xBF, CHR 0xE2, CHR 0xA0, CHR 0x86, CHR 0xE2, CHR 0xA0, CHR 0x80, CHR 0xE2, CHR 0xA2, CHR 0x80,
     CHR 0xE2, CHR 0xA3, CHR 0xB8, CHR 0xE2, CHR 0xA3, CHR 0x87, CHR 0xE2, CHR 0xA3, CHR 0x80, CHR 0xE2,
     CHR 0xA0, CHR 0x80, CHR 0x20, CHR 0x20, CHR 0x2F, CHR 0x20, CHR 0x5F, CHR 0x20, CHR 0x29, CHR 0x20,
     CHR 0x5F, CHR 0x5F, CHR 0x5F, CHR 0x20, CHR 0x20, CHR 0x5F, CHR 0x5F, CHR 0x5F, CHR 0x20, CHR 0x5F,
     CHR 0x5F, CHR 0x5F, CHR 0x20, CHR 0x5F, CHR 0x5F, CHR 0x5F, CHR 0x20, CHR 0x20, CHR 0x20, CHR 0x20,
     CHR 0x20, CHR 0x20, CHR 0x0A,
     CHR 0xE2, CHR 0xA0, CHR 0x80, CHR 0xE2, CHR 0xA0, CHR 0x90, CHR 0xE2, CHR 0xA0, CHR 0x8B, CHR 0xE2,
     CHR 0xA2, CHR 0xBB, CHR 0xE2, CHR 0xA3, CHR 0x85, CHR 0xE2, CHR 0xA3, CHR 0x84, CHR 0xE2, CHR 0xA2,
     CHR 0x80, CHR 0xE2, CHR 0xA3, CHR 0x80, CHR 0xE2, CHR 0xA3, CHR 0x80, CHR 0xE2, CHR 0xA1, CHR 0x80,
     CHR 0xE2, CHR 0xA0, CHR 0x80, CHR 0xE2, CHR 0xA0, CHR 0xAF, CHR 0xE2, CHR 0xA0, CHR 0xBD, CHR 0xE2,
     CHR 0xA0, CHR 0x82, CHR 0xE2, CHR 0xA2, CHR 0x80, CHR 0xE2, CHR 0xA3, CHR 0x80, CHR 0xE2, CHR 0xA3,
     CHR 0x80, CHR 0xE2, CHR 0xA1, CHR 0x80, CHR 0xE2, CHR 0xA0, CHR 0x80, CHR 0xE2, CHR 0xA3, CHR 0xA4,
     CHR 0xE2, CHR 0xA3, CHR 0xBF, CHR 0xE2, CHR 0xA0, CHR 0x80, CHR 0xE2, CHR 0xA0, CHR 0x89, CHR 0xE2,
     CHR 0xA0, CHR 0x80, CHR 0x20, CHR 0x2F, CHR 0x20, CHR 0x5F, CHR 0x20, CHR 0x20, CHR 0x7C, CHR 0x2F,
     CHR 0x20, CHR 0x5F, CHR 0x20, CHR 0x5C, CHR 0x2F, CHR 0x5F, CHR 0x20, CHR 0x2F, CHR 0x2F, CHR 0x5F,
     CHR 0x20, CHR 0x2F, CHR 0x2F, CHR 0x20, CHR 0x5F, CHR 0x20, CHR 0x5C, CHR 0x20, CHR 0x20, CHR 0x20,
     CHR 0x20, CHR 0x20, CHR 0x0A,
     CHR 0xE2, CHR 0xA0, CHR 0x80, CHR 0xE2, CHR 0xA0, CHR 0x80, CHR 0xE2, CHR 0xA0, CHR 0xB4, CHR 0xE2,
     CHR 0xA0, CHR 0x9B, CHR 0xE2, CHR 0xA0, CHR 0x99, CHR 0xE2, CHR 0xA3, CHR 0xB3, CHR 0xE2, CHR 0xA0,
     CHR 0x8B, CHR 0xE2, CHR 0xA0, CHR 0x89, CHR 0xE2, CHR 0xA0, CHR 0x89, CHR 0xE2, CHR 0xA0, CHR 0x99,
     CHR 0xE2, CHR 0xA3, CHR 0x86, CHR 0xE2, CHR 0xA0, CHR 0x80, CHR 0xE2, CHR 0xA0, CHR 0x80, CHR 0xE2,
     CHR 0xA2, CHR 0xB0, CHR 0xE2, CHR 0xA1, CHR 0x9F, CHR 0xE2, CHR 0xA0, CHR 0x89, CHR 0xE2, CHR 0xA0,
     CHR 0x88, CHR 0xE2, CHR 0xA0, CHR 0x99, CHR 0xE2, CHR 0xA2, CHR 0xB7, CHR 0xE2, CHR 0xA0, CHR 0x9F,
     CHR 0xE2, CHR 0xA0, CHR 0x89, CHR 0xE2, CHR 0xA0, CHR 0x99, CHR 0xE2, CHR 0xA0, CHR 0x82, CHR 0xE2,
     CHR 0xA0, CHR 0x80, CHR 0x2F, CHR 0x5F, CHR 0x5F, CHR 0x5F, CHR 0x5F, CHR 0x2F, CHR 0x20, CHR 0x5C,
     CHR 0x5F, CHR 0x5F, CHR 0x5F, CHR 0x2F, CHR 0x2F, CHR 0x5F, CHR 0x5F, CHR 0x2F, CHR 0x2F, CHR 0x5F,
     CHR 0x5F, CHR 0x2F, CHR 0x5C, CHR 0x5F, CHR 0x5F, CHR 0x5F, CHR 0x2F, CHR 0x20, CHR 0x20, CHR 0x20,
     CHR 0x20, CHR 0x20, CHR 0x0A,
     CHR 0xE2, CHR 0xA0, CHR 0x80, CHR 0xE2, CHR 0xA0, CHR 0x80, CHR 0xE2, CHR 0xA0, CHR 0x80, CHR 0xE2,
     CHR 0xA0, CHR 0x80, CHR 0xE2, CHR 0xA0, CHR 0x80, CHR 0xE2, CHR 0xA2, CHR 0xBB, CHR 0xE2, CHR 0xA3,
     CHR 0x84, CHR 0xE2, CHR 0xA3, CHR 0xA0, CHR 0xE2, CHR 0xA3, CHR 0xA4, CHR 0xE2, CHR 0xA3, CHR 0xB4,
     CHR 0xE2, CHR 0xA0, CHR 0x9F, CHR 0xE2, CHR 0xA0, CHR 0x9B, CHR 0xE2, CHR 0xA0, CHR 0x9B, CHR 0xE2,
     CHR 0xA0, CHR 0x9B, CHR 0xE2, CHR 0xA2, CHR 0xA7, CHR 0xE2, CHR 0xA3, CHR 0xA4, CHR 0xE2, CHR 0xA3,
     CHR 0xA4, CHR 0xE2, CHR 0xA3, CHR 0x80, CHR 0xE2, CHR 0xA1, CHR 0xBE, CHR 0xE2, CHR 0xA0, CHR 0x81,
     CHR 0xE2, CHR 0xA0, CHR 0x80, CHR 0xE2, CHR 0xA0, CHR 0x80, CHR 0xE2, CHR 0xA0, CHR 0x80, CHR 0xE2,
     CHR 0xA0, CHR 0x80, CHR 0x0A
    ]"

subsection \<open>Strings and runes\<close>

text \<open>
  The conversion \<^verbatim>\<open>[]rune(msg)\<close> decodes UTF-8 as Go's runtime does: an ASCII byte
  is its own rune; a well-formed multi-byte sequence is one rune; any other byte yields
  \<^verbatim>\<open>U+FFFD\<close> and consumes a single byte. \<open>decoderune\<close> returns the rune at the start
  of a string whose first byte is not ASCII, with the number of bytes it consumed.
\<close>

definition runeError :: rune where "runeError = 0xFFFD"

definition continuation :: "char \<Rightarrow> bool" where
  "continuation b \<longleftrightarrow> (0x80 :: int) \<le> of_char b \<and> (of_char b :: int) \<le> 0xBF"

definition decoderune :: "string \<Rightarrow> rune \<times> nat" where
  "decoderune s =
    (case s of
       [] \<Rightarrow> (runeError, 1)
     | b0 # s1 \<Rightarrow>
         if (0xC0 :: int) \<le> of_char b0 \<and> (of_char b0 :: int) < 0xE0 then
           (case s1 of
              b1 # _ \<Rightarrow>
                if continuation b1 then
                  (let r = push_bit 6 (of_char b0 AND 0x1F) OR (of_char b1 AND 0x3F)
                   in if 0x7F < r then (r, 2) else (runeError, 1))
                else (runeError, 1)
            | _ \<Rightarrow> (runeError, 1))
         else if (0xE0 :: int) \<le> of_char b0 \<and> (of_char b0 :: int) < 0xF0 then
           (case s1 of
              b1 # b2 # _ \<Rightarrow>
                if continuation b1 \<and> continuation b2 then
                  (let r = push_bit 12 (of_char b0 AND 0x0F) OR push_bit 6 (of_char b1 AND 0x3F)
                             OR (of_char b2 AND 0x3F)
                   in if 0x7FF < r \<and> (r < 0xD800 \<or> 0xDFFF < r) then (r, 3) else (runeError, 1))
                else (runeError, 1)
            | _ \<Rightarrow> (runeError, 1))
         else if (0xF0 :: int) \<le> of_char b0 \<and> (of_char b0 :: int) < 0xF8 then
           (case s1 of
              b1 # b2 # b3 # _ \<Rightarrow>
                if continuation b1 \<and> continuation b2 \<and> continuation b3 then
                  (let r = push_bit 18 (of_char b0 AND 0x07) OR push_bit 12 (of_char b1 AND 0x3F)
                             OR push_bit 6 (of_char b2 AND 0x3F) OR (of_char b3 AND 0x3F)
                   in if 0xFFFF < r \<and> r \<le> 0x10FFFF then (r, 4) else (runeError, 1))
                else (runeError, 1)
            | _ \<Rightarrow> (runeError, 1))
         else (runeError, 1))"

fun runes :: "string \<Rightarrow> rune list" where
  "runes [] = []"
| "runes (b # s) =
     (if (of_char b :: int) < 0x80 then of_char b # runes s
      else (case decoderune (b # s) of (r, w) \<Rightarrow> r # runes (drop (w - 1) s)))"

text \<open>
  \<^verbatim>\<open>string(c)\<close> and \<^verbatim>\<open>WriteRune(c)\<close> produce the UTF-8 encoding of a rune; a rune
  that is no valid code point is encoded as \<^verbatim>\<open>U+FFFD\<close>.
\<close>

definition encoderune :: "rune \<Rightarrow> string" where
  "encoderune r =
    (if 0 \<le> r \<and> r \<le> 0x7F then [char_of r]
     else if 0 \<le> r \<and> r \<le> 0x7FF then
       [char_of (0xC0 OR drop_bit 6 r), char_of (0x80 OR (r AND 0x3F))]
     else if r < 0 \<or> 0x10FFFF < r \<or> (0xD800 \<le> r \<and> r \<le> 0xDFFF) then
       [CHR 0xEF, CHR 0xBF, CHR 0xBD]
     else if r \<le> 0xFFFF then
       [char_of (0xE0 OR drop_bit 12 r), char_of (0x80 OR (drop_bit 6 r AND 0x3F)),
        char_of (0x80 OR (r AND 0x3F))]
     else
       [char_of (0xF0 OR drop_bit 18 r), char_of (0x80 OR (drop_bit 12 r AND 0x3F)),
        char_of (0x80 OR (drop_bit 6 r AND 0x3F)), char_of (0x80 OR (r AND 0x3F))])"


subsection \<open>Colours\<close>

text \<open>
  Modelled from the spec: the type \<^verbatim>\<open>noire.Color\<close> belongs to a library that is not
  part of the sources. The spec describes the colour as an HSV triple. Its components are
  real numbers here; the rounding of \<^verbatim>\<open>float64\<close> is outside the model.
\<close>

record noire_color =
  hue :: real
  sat :: real
  val :: real

text \<open>
  Modelled from the spec: \<^verbatim>\<open>noire.NewHSV\<close>, missing from the sources, makes the colour
  with the given hue, saturation and value.
\<close>

definition NewHSV :: "real \<Rightarrow> real \<Rightarrow> real \<Rightarrow> noire_color" where
  "NewHSV h s v = \<lparr>hue = h, sat = s, val = v\<rparr>"

text \<open>The remainder of \<open>x\<close> modulo \<open>m\<close>, with the sign of \<open>m\<close>.\<close>

definition fmod :: "real \<Rightarrow> real \<Rightarrow> real" where
  "fmod x m = x - m * of_int \<lfloor>x / m\<rfloor>"

text \<open>
  Modelled from the spec: \<^verbatim>\<open>noire.Color.AdjustHue\<close>, missing from the sources. The spec
  describes hue rotation as incrementing the hue component by a fixed number of degrees,
  wrapping modulo 360, with the result from 0 (included) to 360 (excluded); saturation and
  value are kept.
\<close>

definition AdjustHue :: "noire_color \<Rightarrow> real \<Rightarrow> noire_color" where
  "AdjustHue c degrees = c\<lparr>hue := fmod (hue c + degrees) 360\<rparr>"

text \<open>A colour is normalised when its hue is at least 0 and less than 360.\<close>

definition normalised :: "noire_color \<Rightarrow> bool" where
  "normalised c \<longleftrightarrow> 0 \<le> hue c \<and> hue c < 360"

subsection \<open>Styles\<close>

text \<open>
  A \<^verbatim>\<open>lipgloss.Color\<close> is a string. Of a \<^verbatim>\<open>lipgloss.Style\<close> the program uses the
  renderer that created it and the foreground colour; \<^verbatim>\<open>Foreground\<close> returns a copy of
  the style with the colour set.
\<close>

type_synonym lipgloss_color = string

record 'r lipgloss_style =
  renderer :: 'r
  foreground :: "lipgloss_color option"

definition NewStyle :: "'r \<Rightarrow> 'r lipgloss_style" where
  "NewStyle r = \<lparr>renderer = r, foreground = None\<rparr>"

definition Foreground :: "'r lipgloss_style \<Rightarrow> lipgloss_color \<Rightarrow> 'r lipgloss_style" where
  "Foreground s c = s\<lparr>foreground := Some c\<rparr>"

subsection \<open>Library functions taken as parameters\<close>

text \<open>
  Three functions of the libraries are not part of the sources and are left open: the
  hexadecimal form of a colour (\<^verbatim>\<open>noire.Color.Hex\<close>), the rendering of a text in a
  style (\<^verbatim>\<open>lipgloss.Style.Render\<close>), and the textual form of an IP address
  (\<^verbatim>\<open>net.IP.String\<close>, which \<^verbatim>\<open>%v\<close> prints).
\<close>

record 'r extern =
  Hex :: "noire_color \<Rightarrow> string"
  Render :: "'r lipgloss_style \<Rightarrow> string \<Rightarrow> string"
  IPString :: "string \<Rightarrow> string"

subsection \<open>Network addresses\<close>

text \<open>
  A \<^verbatim>\<open>net.Addr\<close> is an interface value: nil, a pointer to a \<^verbatim>\<open>net.TCPAddr\<close>
  (possibly a nil pointer), or a value of another type, of which only the results of its
  methods \<^verbatim>\<open>Network\<close> and \<^verbatim>\<open>String\<close> are kept.
\<close>

record tcp_addr =
  IP :: string
  Port :: goint
  Zone :: string

datatype net_addr = NilAddr | TCPAddrPtr "tcp_addr option" | OtherAddr string string

subsection \<open>The model and its messages\<close>

record 'r model =
  term' :: string
  address :: net_addr
  width :: goint
  height :: goint
  tick :: uint
  color :: noire_color
  style :: "'r lipgloss_style"
  txtStyle :: "'r lipgloss_style"
  quitStyle :: "'r lipgloss_style"

text \<open>
  A \<^verbatim>\<open>tea.Msg\<close> is a value of any type. The type switch of \<open>Update\<close> tells three types
  apart; every other value is an \<open>OtherMsg\<close>. Of a key message only the result of its
  method \<^verbatim>\<open>String\<close> is kept, which is all that \<open>Update\<close> reads.
\<close>

datatype 'x msg =
    WindowSizeMsg (Width: goint) (Height: goint)
  | KeyMsg string
  | tickMsg uint
  | OtherMsg 'x

text \<open>A \<^verbatim>\<open>tea.Cmd\<close> is nil (\<open>None\<close>) or the command \<^verbatim>\<open>tea.Quit\<close>.\<close>

datatype cmd = Quit

section \<open>The program\<close>

definition Init :: "'r model \<Rightarrow> cmd option" where
  "Init m = None"

definition Update :: "'r model \<Rightarrow> 'x msg \<Rightarrow> 'r model \<times> cmd option" where
  "Update m msg =
    (case msg of
       WindowSizeMsg w h \<Rightarrow> (m\<lparr>height := h, width := w\<rparr>, None)
     | KeyMsg k \<Rightarrow> if k = ''q'' \<or> k = ''ctrl+c'' then (m, Some Quit) else (m, None)
     | tickMsg n \<Rightarrow> (m\<lparr>tick := n, color := AdjustHue (color m) step\<rparr>, None)
     | OtherMsg _ \<Rightarrow> (m, None))"

definition noireColorToLipglossColor :: "'r extern \<Rightarrow> noire_color \<Rightarrow> lipgloss_color" where
  "noireColorToLipglossColor E c = ''#'' @ Hex E c"

text \<open>
  The loop of \<open>lolcat\<close> over the runes of the text. Its state is the builder and the two
  colour cursors. The body reads the package constants \<open>angle\<close> and \<open>gradient\<close>; they
  are arguments \<open>a\<close> and \<open>g\<close> of the loop, which \<open>lolcat\<close> instantiates.
\<close>

fun lolcat_loop ::
  "'r extern \<Rightarrow> 'r lipgloss_style \<Rightarrow> real \<Rightarrow> real \<Rightarrow> rune list \<Rightarrow>
   string \<times> noire_color \<times> noire_color \<Rightarrow> string \<times> noire_color \<times> noire_color" where
  "lolcat_loop E st a g [] s = s"
| "lolcat_loop E st a g (c # cs) (builder, rowColor, charColor) =
     (if c = 0x0A then
        lolcat_loop E st a g cs
          (builder @ encoderune c, AdjustHue rowColor a, AdjustHue rowColor a)
      else
        lolcat_loop E st a g cs
          (builder @ Render E (Foreground st (noireColorToLipglossColor E charColor)) (encoderune c),
           rowColor, AdjustHue charColor g))"

text \<open>
  \<open>lolcat\<close> takes a pointer to the initial colour and dereferences it once, on entry; a nil
  pointer (\<open>None\<close>) panics.
\<close>

definition lolcat ::
  "'r extern \<Rightarrow> string \<Rightarrow> noire_color option \<Rightarrow> 'r lipgloss_style \<Rightarrow> go_panic + string" where
  "lolcat E msg initialColor st =
    (case initialColor of
       None \<Rightarrow> Inl NilDereference
     | Some c \<Rightarrow> Inr (fst (lolcat_loop E st angle gradient (runes msg) ([], c, c))))"

text \<open>
  \<open>View\<close> first formats the address line, asserting that the address is a
  \<^verbatim>\<open>*net.TCPAddr\<close> and reading its field \<^verbatim>\<open>IP\<close>; the assertion panics on any other
  address and the field access panics on a nil pointer.
\<close>

definition View :: "'r extern \<Rightarrow> 'r model \<Rightarrow> go_panic + string" where
  "View E m =
    (case address m of
       TCPAddrPtr (Some a) \<Rightarrow>
         (let msg = ''Your IP is '' @ IPString E (IP a) in
          case lolcat E graphic (Some (color m)) (style m) of
            Inl p \<Rightarrow> Inl p
          | Inr banner \<Rightarrow>
              Inr (banner @ [CHR 0x0A] @ Render E (txtStyle m) msg @ [CHR 0x0A]
                     @ Render E (quitStyle m) (''Press '' @ [CHR 0x27] @ ''q'' @ [CHR 0x27] @ '' to quit'' @ [CHR 0x0A])))
     | TCPAddrPtr None \<Rightarrow> Inl NilDereference
     | _ \<Rightarrow> Inl TypeAssertion)"

subsection \<open>Session start and the event loop\<close>

text \<open>
  What \<open>teaHandler\<close> reads of the session: the terminal type and window of its PTY, its
  remote address, and the renderer made for it.
\<close>

record 'r session =
  ptyTerm :: string
  ptyWidth :: goint
  ptyHeight :: goint
  RemoteAddr :: net_addr
  MakeRenderer :: 'r

definition teaHandler :: "'r session \<Rightarrow> 'r model" where
  "teaHandler s =
    \<lparr>term' = ptyTerm s,
     address = RemoteAddr s,
     width = ptyWidth s,
     height = ptyHeight s,
     tick = 0,
     color = NewHSV 0 66 100,
     style = NewStyle (MakeRenderer s),
     txtStyle = Foreground (NewStyle (MakeRenderer s)) ''10'',
     quitStyle = Foreground (NewStyle (MakeRenderer s)) ''8''\<rparr>"

text \<open>The model after a sequence of messages has been handled, one at a time.\<close>

definition updates :: "'r model \<Rightarrow> 'x msg list \<Rightarrow> 'r model" where
  "updates m msgs = foldl (\<lambda>m msg. fst (Update m msg)) m msgs"

text \<open>The messages of the ticker started by \<open>newProg\<close>: counts 1, 2, ..., n.\<close>

definition ticks :: "nat \<Rightarrow> 'x msg list" where
  "ticks n = map (\<lambda>k. tickMsg (of_nat k)) [1..<Suc n]"

subsection \<open>Concrete instances for evaluation\<close>

text \<open>
  A stand-in for the library functions: two hexadecimal colours, a rendering that writes the
  foreground colour in brackets before the text, and one fixed address text.
\<close>

definition example_extern :: "unit extern" where
  "example_extern =
    \<lparr>Hex = (\<lambda>c. if hue c < 180 then ''FFAA57'' else ''57AAFF''),
     Render = (\<lambda>st s. case foreground st of None \<Rightarrow> s | Some col \<Rightarrow> ''['' @ col @ '']'' @ s),
     IPString = (\<lambda>ip. ''192.0.2.7'')\<rparr>"

text \<open>A session over TCP, and the same session with a remote address of another type.\<close>

definition example_session :: "unit session" where
  "example_session =
    \<lparr>ptyTerm = ''xterm'',
     ptyWidth = 80,
     ptyHeight = 24,
     RemoteAddr = TCPAddrPtr (Some \<lparr>IP = [CHR 0xC0, CHR 0x00, CHR 0x02, CHR 0x07], Port = 50022, Zone = []\<rparr>),
     MakeRenderer = ()\<rparr>"

definition unix_session :: "unit session" where
  "unix_session = example_session\<lparr>RemoteAddr := OtherAddr ''unix'' ''/run/ssh.sock''\<rparr>"

section \<open>Auxiliary facts\<close>

subsection \<open>Wrapping modulo a positive number\<close>

lemma fmod_range: "0 < m \<Longrightarrow> 0 \<le> fmod x m \<and> fmod x m < m"
proof -
  assume m: "0 < m"
  define k where "k = \<lfloor>x / m\<rfloor>"
  have "of_int k \<le> x / m" and "x / m < of_int k + 1"
    unfolding k_def by linarith+
  with m have "of_int k * m \<le> x" and "x < (of_int k + 1) * m"
    by (simp_all only: pos_le_divide_eq pos_divide_less_eq)
  then have "0 \<le> x - m * of_int k \<and> x - m * of_int k < m"
    by (simp add: algebra_simps)
  then show ?thesis
    by (simp add: fmod_def k_def)
qed

lemma fmod_idem: "0 \<le> x \<Longrightarrow> x < m \<Longrightarrow> fmod x m = x"
proof -
  assume x: "0 \<le> x" "x < m"
  then have "\<lfloor>x / m\<rfloor> = 0"
    by (simp add: floor_eq_iff)
  then show ?thesis by (simp add: fmod_def)
qed

lemma fmod_add_left: "m \<noteq> 0 \<Longrightarrow> fmod (fmod x m + y) m = fmod (x + y) m"
proof -
  assume m: "m \<noteq> 0"
  define k where "k = \<lfloor>x / m\<rfloor>"
  have fx: "fmod x m = x - m * of_int k"
    by (simp add: fmod_def k_def)
  have "(x - m * of_int k + y) / m = (x + y) / m - of_int k"
    using m by (simp add: field_simps)
  then have "\<lfloor>(x - m * of_int k + y) / m\<rfloor> = \<lfloor>(x + y) / m\<rfloor> - k"
    by simp
  then have "fmod (x - m * of_int k + y) m = x - m * of_int k + y - m * of_int (\<lfloor>(x + y) / m\<rfloor> - k)"
    unfolding fmod_def by simp
  also have "\<dots> = fmod (x + y) m"
    by (simp add: fmod_def algebra_simps)
  finally show ?thesis by (simp add: fx)
qed

lemma fmod_of_int: "fmod (of_int a) (of_int b) = of_int (a mod b)"
proof -
  have "\<lfloor>real_of_int a / real_of_int b\<rfloor> = a div b"
    by (simp add: floor_divide_of_int_eq)
  then have "fmod (of_int a) (of_int b) = of_int a - of_int b * of_int (a div b)"
    by (simp add: fmod_def)
  also have "\<dots> = of_int (a - b * (a div b))" by simp
  also have "a - b * (a div b) = a mod b" by (simp add: minus_mult_div_eq_mod)
  finally show ?thesis .
qed

lemma normalised_AdjustHue: "normalised (AdjustHue c d)"
  using fmod_range [of 360 "hue c + d"] by (simp add: normalised_def AdjustHue_def)

subsection \<open>Runes\<close>

















subsection \<open>Sequences of messages\<close>

lemma updates_Nil: "updates m [] = m"
  by (simp add: updates_def)

lemma updates_Cons: "updates m (x # xs) = updates (fst (Update m x)) xs"
  by (simp add: updates_def)

lemma tick_step_fst: "fst (Update m (tickMsg n)) = m\<lparr>tick := n, color := AdjustHue (color m) step\<rparr>"
  by (simp add: Update_def)

lemma updates_tick_Cons:
  "updates m (tickMsg n # xs) = updates (m\<lparr>tick := n, color := AdjustHue (color m) step\<rparr>) xs"
  by (simp add: updates_Cons tick_step_fst)

lemma ticks_eq_map: "ticks n = map tickMsg (map of_nat [1..<Suc n])"
  by (simp add: ticks_def)

lemma address_Update: "address (fst (Update m msg)) = address m"
  by (cases msg) (simp_all add: Update_def)

lemma address_updates: "address (updates m msgs) = address m"
  by (induction msgs arbitrary: m) (simp_all add: updates_Nil updates_Cons address_Update)

lemma style_Update:
  "style (fst (Update m msg)) = style m \<and> txtStyle (fst (Update m msg)) = txtStyle m \<and>
   quitStyle (fst (Update m msg)) = quitStyle m"
  by (cases msg) (simp_all add: Update_def)

lemma style_updates:
  "style (updates m msgs) = style m \<and> txtStyle (updates m msgs) = txtStyle m \<and>
   quitStyle (updates m msgs) = quitStyle m"
  by (induction msgs arbitrary: m) (simp_all add: updates_Nil updates_Cons style_Update)

text \<open>Each tick rotates the colour once by the step, whatever its count.\<close>

lemma color_updates_ticks:
  "color (updates m (map tickMsg ns :: 'x msg list)) = ((\<lambda>c. AdjustHue c step) ^^ length ns) (color m)"
proof (induction ns arbitrary: m)
  case Nil
  show ?case by (simp add: updates_Nil)
next
  case (Cons n ns)
  show ?case
    using funpow_swap1 [of "\<lambda>c. AdjustHue c step" "length ns" "color m"]
    by (simp add: updates_tick_Cons Cons.IH)
qed

text \<open>
  After any number of ticks the hue is the hue before, advanced by the step once for each
  tick and wrapped: first from a normalised colour, then after at least one tick from any
  colour.
\<close>

lemma hue_updates_ticks_normalised:
  "normalised (color m) \<Longrightarrow>
   hue (color (updates m (map tickMsg ns :: 'x msg list))) =
     fmod (hue (color m) + real (length ns) * step) 360"
proof (induction ns arbitrary: m)
  case Nil
  then show ?case by (simp add: updates_Nil fmod_idem normalised_def)
next
  case (Cons n ns)
  define m' where "m' = m\<lparr>tick := n, color := AdjustHue (color m) step\<rparr>"
  have hue': "hue (color m') = fmod (hue (color m) + step) 360"
    by (simp add: m'_def AdjustHue_def)
  have "normalised (color m')"
    by (simp add: m'_def normalised_AdjustHue)
  then have "hue (color (updates m' (map tickMsg ns :: 'x msg list))) =
      fmod (hue (color m') + real (length ns) * step) 360"
    by (rule Cons.IH)
  also have "\<dots> = fmod (fmod (hue (color m) + step) 360 + real (length ns) * step) 360"
    by (simp only: hue')
  also have "\<dots> = fmod (hue (color m) + step + real (length ns) * step) 360"
    by (rule fmod_add_left) simp
  finally show ?case
    by (simp add: updates_tick_Cons m'_def algebra_simps)
qed

lemma hue_updates_ticks_nonempty:
  assumes "ns \<noteq> []"
  shows "hue (color (updates m (map tickMsg ns :: 'x msg list))) =
    fmod (hue (color m) + real (length ns) * step) 360"
proof -
  from assms obtain n ns' where ns: "ns = n # ns'"
    by (cases ns) auto
  define m' where "m' = m\<lparr>tick := n, color := AdjustHue (color m) step\<rparr>"
  have hue': "hue (color m') = fmod (hue (color m) + step) 360"
    by (simp add: m'_def AdjustHue_def)
  have "normalised (color m')"
    by (simp add: m'_def normalised_AdjustHue)
  then have "hue (color (updates m' (map tickMsg ns' :: 'x msg list))) =
      fmod (hue (color m') + real (length ns') * step) 360"
    by (rule hue_updates_ticks_normalised)
  also have "\<dots> = fmod (fmod (hue (color m) + step) 360 + real (length ns') * step) 360"
    by (simp only: hue')
  also have "\<dots> = fmod (hue (color m) + step + real (length ns') * step) 360"
    by (rule fmod_add_left) simp
  finally show ?thesis
    by (simp add: ns updates_tick_Cons m'_def algebra_simps)
qed

subsection \<open>The loop of the renderer\<close>

text \<open>
  The colour cursors after the loop: the character colour is normalised once a rune has been
  handled, the row colour once a newline has been handled, and the row colour is untouched
  by a text without a newline.
\<close>

lemma lolcat_loop_normalised:
  "(normalised ch \<or> cs \<noteq> [] \<longrightarrow> normalised (snd (snd (lolcat_loop E st a g cs (b, row, ch))))) \<and>
   (normalised row \<or> 0x0A \<in> set cs \<longrightarrow> normalised (fst (snd (lolcat_loop E st a g cs (b, row, ch))))) \<and>
   (0x0A \<notin> set cs \<longrightarrow> fst (snd (lolcat_loop E st a g cs (b, row, ch))) = row)"
proof (induction cs arbitrary: b row ch)
  case Nil
  show ?case by simp
next
  case (Cons c cs)
  show ?case
  proof (cases "c = 0x0A")
    case True
    with Cons.IH [where b = "b @ encoderune c" and row = "AdjustHue row a" and ch = "AdjustHue row a"]
    show ?thesis by (simp add: normalised_AdjustHue)
  next
    case False
    with Cons.IH [where b = "b @ Render E (Foreground st (noireColorToLipglossColor E ch)) (encoderune c)"
        and row = row and ch = "AdjustHue ch g"]
    show ?thesis by (simp add: normalised_AdjustHue)
  qed
qed


subsection \<open>The view\<close>

lemma View_tcp:
  "address m = TCPAddrPtr (Some a) \<Longrightarrow>
   View E m =
     Inr (fst (lolcat_loop E (style m) angle gradient (runes graphic) ([], color m, color m))
          @ [CHR 0x0A] @ Render E (txtStyle m) (''Your IP is '' @ IPString E (IP a)) @ [CHR 0x0A]
          @ Render E (quitStyle m) (''Press '' @ [CHR 0x27] @ ''q'' @ [CHR 0x27] @ '' to quit'' @ [CHR 0x0A]))"
  by (simp add: View_def lolcat_def)

lemma View_not_tcp:
  "(\<And>a. address m \<noteq> TCPAddrPtr (Some a)) \<Longrightarrow> \<exists>p. View E m = Inl p"
  by (cases "address m") (auto simp: View_def split: option.splits)

section \<open>The update function\<close>

text \<open>
  Claim C1. Handling a tick message with count \<open>n\<close> stores \<open>n\<close> in the field \<open>tick\<close> and
  replaces the colour by the colour rotated by the step, which is 40 degrees: the same colour
  with its hue advanced by 40 and wrapped modulo 360. Every other field of the model stays
  as it was, and no command is returned, so the session continues.
\<close>

theorem Update_tick:
  "Update m (tickMsg n) = (m\<lparr>tick := n, color := AdjustHue (color m) step\<rparr>, None) \<and>
   step = 40 \<and>
   AdjustHue (color m) step = (color m)\<lparr>hue := fmod (hue (color m) + 40) 360\<rparr>"
  by (simp add: Update_def AdjustHue_def step_def)

theorem Update_tick_witness:
  "Update (teaHandler example_session) (tickMsg 1 :: unit msg) =
     ((teaHandler example_session)\<lparr>tick := 1, color := \<lparr>hue = 40, sat = 66, val = 100\<rparr>\<rparr>, None)"
  using Update_tick [of "teaHandler example_session" 1]
  by (simp add: teaHandler_def NewHSV_def fmod_def Update_def AdjustHue_def step_def)

text \<open>
  Claim C3. A key message whose key is \<^verbatim>\<open>q\<close> or \<^verbatim>\<open>ctrl+c\<close> returns the quit
  command; a key message with any other key returns no command; in all three cases the
  model is returned unchanged.
\<close>

theorem Update_key:
  "Update m (KeyMsg ''q'') = (m, Some Quit) \<and>
   Update m (KeyMsg ''ctrl+c'') = (m, Some Quit) \<and>
   (k \<noteq> ''q'' \<and> k \<noteq> ''ctrl+c'' \<longrightarrow> Update m (KeyMsg k) = (m, None))"
  by (simp add: Update_def)

theorem Update_key_witness:
  "Update (teaHandler example_session) (KeyMsg ''q'' :: unit msg) = (teaHandler example_session, Some Quit) \<and>
   Update (teaHandler example_session) (KeyMsg ''ctrl+c'' :: unit msg) = (teaHandler example_session, Some Quit) \<and>
   Update (teaHandler example_session) (KeyMsg ''Q'' :: unit msg) = (teaHandler example_session, None)"
  using Update_key [of "teaHandler example_session" "''Q''"]
  by simp

text \<open>
  Claim C6. Handling a window size message with width \<open>w\<close> and height \<open>h\<close> yields a model
  whose fields \<open>width\<close> and \<open>height\<close> are \<open>w\<close> and \<open>h\<close> and whose other fields (terminal
  type, address, tick count, colour, the three styles) are those of the model before; no
  command is returned.
\<close>

theorem Update_resize:
  "Update m (WindowSizeMsg w h) = (m\<lparr>height := h, width := w\<rparr>, None) \<and>
   width (fst (Update m (WindowSizeMsg w h))) = w \<and>
   height (fst (Update m (WindowSizeMsg w h))) = h \<and>
   term' (fst (Update m (WindowSizeMsg w h))) = term' m \<and>
   address (fst (Update m (WindowSizeMsg w h))) = address m \<and>
   tick (fst (Update m (WindowSizeMsg w h))) = tick m \<and>
   color (fst (Update m (WindowSizeMsg w h))) = color m \<and>
   style (fst (Update m (WindowSizeMsg w h))) = style m \<and>
   txtStyle (fst (Update m (WindowSizeMsg w h))) = txtStyle m \<and>
   quitStyle (fst (Update m (WindowSizeMsg w h))) = quitStyle m"
  by (simp add: Update_def)

theorem Update_resize_witness:
  "Update (teaHandler example_session) (WindowSizeMsg 132 43 :: unit msg) =
     ((teaHandler example_session)\<lparr>height := 43, width := 132\<rparr>, None)"
  using Update_resize [of "teaHandler example_session" 132 43]
  by (rule conjunct1)

text \<open>
  Claim C10. A message that is neither a window size message, nor a key message, nor a tick
  message leaves the model unchanged and returns no command.
\<close>

theorem Update_other:
  "(\<forall>w h. msg \<noteq> WindowSizeMsg w h) \<and> (\<forall>k. msg \<noteq> KeyMsg k) \<and> (\<forall>n. msg \<noteq> tickMsg n) \<Longrightarrow>
   Update m msg = (m, None)"
  by (cases msg) (simp_all add: Update_def)

theorem Update_other_witness:
  "Update (teaHandler example_session) (OtherMsg ''tea.MouseMsg'') = (teaHandler example_session, None)"
  using Update_other [of "OtherMsg ''tea.MouseMsg''" "teaHandler example_session"]
  by simp

text \<open>
  Claim C5. A sequence of tick messages, whatever their counts, rotates the colour once by
  the step for each message, and the hue after it is the hue before plus 40 degrees for each
  tick, wrapped modulo 360. The latter holds for every model when the sequence is not empty,
  and for the empty sequence when the hue before is normalised. A session starts with hue 0,
  and after the first three ticks of the ticker its hue is 120.
\<close>

theorem ticks_advance_hue:
  "color (updates m (map tickMsg ns)) = ((\<lambda>c. AdjustHue c step) ^^ length ns) (color m) \<and>
   (ns \<noteq> [] \<or> (0 \<le> hue (color m) \<and> hue (color m) < 360) \<longrightarrow>
     hue (color (updates m (map tickMsg ns))) = fmod (hue (color m) + real (length ns) * step) 360) \<and>
   step = 40 \<and>
   hue (color (teaHandler s)) = 0 \<and>
   hue (color (updates (teaHandler s) (ticks 3))) = 120"
proof -
  have general: "ns \<noteq> [] \<or> (0 \<le> hue (color m) \<and> hue (color m) < 360) \<longrightarrow>
     hue (color (updates m (map tickMsg ns))) = fmod (hue (color m) + real (length ns) * step) 360"
    using hue_updates_ticks_nonempty [of ns m] hue_updates_ticks_normalised [of m ns]
    by (auto simp: normalised_def)
  have init: "hue (color (teaHandler s)) = 0"
    by (simp add: teaHandler_def NewHSV_def)
  have "hue (color (updates (teaHandler s) (map tickMsg (map of_nat [1..<Suc 3])))) = fmod (0 + real 3 * step) 360"
    using hue_updates_ticks_nonempty [of "map of_nat [1..<Suc 3]" "teaHandler s"]
    by (simp add: init)
  also have "\<dots> = 120" by (simp add: fmod_def step_def)
  finally have three: "hue (color (updates (teaHandler s) (ticks 3))) = 120"
    by (simp only: ticks_eq_map)
  from general init three show ?thesis
    by (simp add: step_def color_updates_ticks)
qed

theorem ticks_advance_hue_witness:
  "hue (color (updates (teaHandler example_session\<lparr>color := NewHSV 350 66 100\<rparr>) [tickMsg 7, tickMsg 8 :: unit msg])) = 70 \<and>
   hue (color (updates (teaHandler example_session) ([] :: unit msg list))) = 0"
  using ticks_advance_hue [of "teaHandler example_session\<lparr>color := NewHSV 350 66 100\<rparr>" "[7, 8]" example_session]
    ticks_advance_hue [of "teaHandler example_session" "[]" example_session]
  by (simp add: fmod_def NewHSV_def teaHandler_def updates_def Update_def AdjustHue_def step_def)

section \<open>The rainbow renderer\<close>



text \<open>
  Claim C4. Rotating a hue \<open>h\<close> by \<open>d\<close> degrees yields \<open>h + d\<close> modulo 360 (for whole numbers
  of degrees, the remainder of the integer division), keeps saturation and value, and gives a
  hue of at least 0 and less than 360. So the colour of the model is normalised after every
  tick, and in the renderer the character colour is normalised once a rune has been handled
  and the row colour once a newline has been handled; before its first rotation the row
  colour is the initial colour.
\<close>

theorem hue_rotation_normalised:
  "hue (AdjustHue c d) = fmod (hue c + d) 360 \<and>
   sat (AdjustHue c d) = sat c \<and> val (AdjustHue c d) = val c \<and>
   0 \<le> hue (AdjustHue c d) \<and> hue (AdjustHue c d) < 360 \<and>
   fmod (of_int i) 360 = of_int (i mod 360) \<and>
   normalised (color (fst (Update m (tickMsg n)))) \<and>
   (cs \<noteq> [] \<longrightarrow> normalised (snd (snd (lolcat_loop E st angle gradient cs (b, row, ch))))) \<and>
   (0x0A \<in> set cs \<longrightarrow> normalised (fst (snd (lolcat_loop E st angle gradient cs (b, row, ch))))) \<and>
   (0x0A \<notin> set cs \<longrightarrow> fst (snd (lolcat_loop E st angle gradient cs (b, row, ch))) = row)"
proof -
  have "fmod (of_int i) 360 = of_int (i mod 360)"
    using fmod_of_int [of i 360] by simp
  moreover have "0 \<le> hue (AdjustHue c d) \<and> hue (AdjustHue c d) < 360"
    using normalised_AdjustHue [of c d] by (simp add: normalised_def)
  moreover have "normalised (color (fst (Update m (tickMsg n))))"
    by (simp add: Update_def normalised_AdjustHue)
  ultimately show ?thesis
    using lolcat_loop_normalised [of ch cs E st angle gradient b row]
    by (simp add: AdjustHue_def)
qed

theorem hue_rotation_normalised_witness:
  "hue (AdjustHue (NewHSV 350 66 100) step) = 30 \<and>
   hue (AdjustHue (NewHSV 357 66 100) angle) = 3 \<and>
   normalised (snd (snd (lolcat_loop example_extern (NewStyle ()) angle gradient [0x41, 0x0A]
     ([], NewHSV 400 66 100, NewHSV 400 66 100)))) \<and>
   normalised (fst (snd (lolcat_loop example_extern (NewStyle ()) angle gradient [0x41, 0x0A]
     ([], NewHSV 400 66 100, NewHSV 400 66 100)))) \<and>
   fst (snd (lolcat_loop example_extern (NewStyle ()) angle gradient [0x41]
     ([], NewHSV 400 66 100, NewHSV 400 66 100))) = NewHSV 400 66 100"
  using hue_rotation_normalised [of "NewHSV 350 66 100" step 0 "teaHandler example_session" 0
      "[0x41, 0x0A]" example_extern "NewStyle ()" "[]" "NewHSV 400 66 100" "NewHSV 400 66 100"]
    hue_rotation_normalised [of "NewHSV 357 66 100" angle 0 "teaHandler example_session" 0
      "[0x41]" example_extern "NewStyle ()" "[]" "NewHSV 400 66 100" "NewHSV 400 66 100"]
  by (simp add: NewHSV_def step_def angle_def gradient_def fmod_def AdjustHue_def normalised_def)

section \<open>The view\<close>

text \<open>
  Claim C7. When the address of the model is a non-nil pointer to a TCP address, the view is
  the concatenation of three sections with one newline between each two: the result of
  \<open>lolcat\<close> on the graphic with the colour of the model as initial colour, the line
  reporting the IP address rendered in the text style, and the hint \<^verbatim>\<open>Press 'q' to quit\<close>
  with its final newline rendered in the quit style. This covers every state reached from
  the start of a session over TCP by handling messages; there the styles are those made at
  the start of the session, with foreground 10 for the text and 8 for the hint.
\<close>

theorem View_composition:
  "(address m = TCPAddrPtr (Some a) \<longrightarrow>
     (\<exists>banner. lolcat E graphic (Some (color m)) (style m) = Inr banner \<and>
        View E m =
          Inr (banner @ [CHR 0x0A]
               @ Render E (txtStyle m) (''Your IP is '' @ IPString E (IP a)) @ [CHR 0x0A]
               @ Render E (quitStyle m) (''Press '' @ [CHR 0x27] @ ''q'' @ [CHR 0x27] @ '' to quit'' @ [CHR 0x0A])))) \<and>
   (RemoteAddr s = TCPAddrPtr (Some a) \<longrightarrow>
     (\<exists>banner. lolcat E graphic (Some (color (updates (teaHandler s) msgs))) (NewStyle (MakeRenderer s)) = Inr banner \<and>
        View E (updates (teaHandler s) msgs) =
          Inr (banner @ [CHR 0x0A]
               @ Render E (Foreground (NewStyle (MakeRenderer s)) ''10'') (''Your IP is '' @ IPString E (IP a))
               @ [CHR 0x0A]
               @ Render E (Foreground (NewStyle (MakeRenderer s)) ''8'')
                   (''Press '' @ [CHR 0x27] @ ''q'' @ [CHR 0x27] @ '' to quit'' @ [CHR 0x0A]))))"
proof -
  have styles: "style (updates (teaHandler s) msgs) = NewStyle (MakeRenderer s)"
    "txtStyle (updates (teaHandler s) msgs) = Foreground (NewStyle (MakeRenderer s)) ''10''"
    "quitStyle (updates (teaHandler s) msgs) = Foreground (NewStyle (MakeRenderer s)) ''8''"
    by (simp_all add: style_updates teaHandler_def)
  have addr: "address (updates (teaHandler s) msgs) = RemoteAddr s"
    by (simp add: address_updates teaHandler_def)
  show ?thesis
    using View_tcp [of m a E] View_tcp [of "updates (teaHandler s) msgs" a E]
    by (simp add: lolcat_def styles addr)
qed

theorem View_composition_witness:
  "\<exists>banner. lolcat example_extern graphic (Some (NewHSV 80 66 100)) (NewStyle ()) = Inr banner \<and>
     View example_extern (updates (teaHandler example_session) [tickMsg 1, tickMsg 2 :: unit msg]) =
       Inr (banner @ [CHR 0x0A] @ ''[10]Your IP is 192.0.2.7'' @ [CHR 0x0A]
            @ ''[8]Press '' @ [CHR 0x27] @ ''q'' @ [CHR 0x27] @ '' to quit'' @ [CHR 0x0A])"
  using View_composition [of "teaHandler example_session"
      "\<lparr>IP = [CHR 0xC0, CHR 0x00, CHR 0x02, CHR 0x07], Port = 50022, Zone = []\<rparr>" example_extern
      example_session "[tickMsg 1, tickMsg 2 :: unit msg]"]
  by (simp add: teaHandler_def example_session_def example_extern_def NewStyle_def Foreground_def
      updates_def Update_def AdjustHue_def step_def NewHSV_def fmod_def)

text \<open>
  Claim C8, amended. Handling a message always returns a model and a command, and keeps the
  address of the model. In every state reached from the start of a session by handling
  messages, the view returns a string exactly when the remote address of the session is a
  non-nil pointer to a TCP address. As stated for every type of remote address the claim
  fails: for a session with an address of another type the view panics at once.
\<close>

theorem View_returns_iff_tcp:
  "address (updates (teaHandler s) msgs) = RemoteAddr s \<and>
   ((\<exists>out. View E (updates (teaHandler s) msgs) = Inr out) \<longleftrightarrow> (\<exists>a. RemoteAddr s = TCPAddrPtr (Some a))) \<and>
   (\<exists>m' c. Update m msg = (m', c))"
proof -
  have addr: "address (updates (teaHandler s) msgs) = RemoteAddr s"
    by (simp add: address_updates teaHandler_def)
  have "(\<exists>out. View E m = Inr out) \<longleftrightarrow> (\<exists>a. address m = TCPAddrPtr (Some a))" for m :: "'a model"
    using View_tcp [of m _ E] View_not_tcp [of m E] by (metis Inl_Inr_False)
  with addr show ?thesis
    by (metis surj_pair)
qed

theorem View_returns_iff_tcp_witness:
  "\<exists>out. View example_extern (updates (teaHandler example_session)
      [tickMsg 1, KeyMsg ''x'', WindowSizeMsg 100 40 :: unit msg]) = Inr out"
  using View_returns_iff_tcp [of example_session "[tickMsg 1, KeyMsg ''x'', WindowSizeMsg 100 40 :: unit msg]" example_extern]
  by (simp add: example_session_def)

theorem View_panics_counterexample:
  "View example_extern (teaHandler unix_session) = Inl TypeAssertion"
  by (simp add: View_def teaHandler_def unix_session_def)

end
